theory Spec2Isabelle
  imports Main "HOL-Library.AList"
begin

section \<open>Objects of the remote API\<close>

text \<open>
  A Resource is Go's \<^verbatim>\<open>map[string]interface{}\<close>: a schema-less mapping from field names
  to values. Only string leaves and nested mappings are inspected by the watcher; every
  other value is \<open>JOther\<close>. The empty list is \<^verbatim>\<open>Resource{}\<close>.
\<close>

datatype jvalue = JString string | JObject "(string \<times> jvalue) list" | JOther

type_synonym Resource = "(string \<times> jvalue) list"

text \<open>The string stored under a field, or the empty string when absent or not a string.\<close>

definition fieldString :: "Resource \<Rightarrow> string \<Rightarrow> string" where
  "fieldString r f = (case map_of r f of Some (JString s) \<Rightarrow> s | _ \<Rightarrow> [])"

definition metadata :: "Resource \<Rightarrow> Resource" where
  "metadata r = (case map_of r ''metadata'' of Some (JObject m) \<Rightarrow> m | _ \<Rightarrow> [])"

text \<open>
  The accessors of \<^verbatim>\<open>unstructured.Unstructured\<close> used by watcher.go: nested string
  lookups under \<^verbatim>\<open>metadata\<close>, empty when the field is missing.
\<close>

definition GetNamespace :: "Resource \<Rightarrow> string" where
  "GetNamespace r = fieldString (metadata r) ''namespace''"

definition GetName :: "Resource \<Rightarrow> string" where
  "GetName r = fieldString (metadata r) ''name''"

definition GetResourceVersion :: "Resource \<Rightarrow> string" where
  "GetResourceVersion r = fieldString (metadata r) ''resourceVersion''"

text \<open>
  Modelled from the spec: the accessor \<^verbatim>\<open>Kind\<close> of the Resource type (resource.go is
  not among the sources), the kind the object describes itself with.
\<close>

definition Kind :: "Resource \<Rightarrow> string" where
  "Kind r = fieldString r ''kind''"

text \<open>
  Modelled from the spec: the accessor \<^verbatim>\<open>Name\<close> of the Resource type (resource.go is
  not among the sources); it is empty for the empty Resource.
\<close>

definition Name :: "Resource \<Rightarrow> string" where
  "Name r = GetName r"

text \<open>
  Modelled from the spec: the accessor \<^verbatim>\<open>QName\<close> of the Resource type (resource.go is
  not among the sources), the composite qualified name: name plus namespace, the namespace
  defaulted to \<^verbatim>\<open>default\<close>, written as in \<^verbatim>\<open>foo.default\<close>.
\<close>

definition QName :: "Resource \<Rightarrow> string" where
  "QName r = Name r @ ''.'' @ (if GetNamespace r = [] then ''default'' else GetNamespace r)"

text \<open>
  \<^verbatim>\<open>strings.EqualFold\<close> on ASCII text: two strings are equal under case folding when
  they agree after mapping \<^verbatim>\<open>A..Z\<close> to \<^verbatim>\<open>a..z\<close>. Bytes outside the ASCII letters are
  compared as they are.
\<close>

definition toLower :: "char \<Rightarrow> char" where
  "toLower c = (let n = (of_char c :: nat) in if 65 \<le> n \<and> n \<le> 90 then char_of (n + 32) else c)"

definition EqualFold :: "string \<Rightarrow> string \<Rightarrow> bool" where
  "EqualFold s t = (map toLower s = map toLower t)"

section \<open>Collection keys, handles and the client\<close>

record GroupVersionResource =
  Group :: string
  Version :: string
  Resource :: string

record watchKey =
  gvr :: GroupVersionResource
  Namespace :: string

text \<open>
  A \<^verbatim>\<open>dynamic.ResourceInterface\<close>: a handle bound to one collection and optionally one
  namespace; the empty namespace means all namespaces.
\<close>

record ResourceInterface =
  handleGVR :: GroupVersionResource
  handleNamespace :: string

text \<open>\<^verbatim>\<open>kubeclient.Resource(gvr)\<close>: the handle of a collection, bound to no namespace.\<close>

definition kubeResource :: "GroupVersionResource \<Rightarrow> ResourceInterface" where
  "kubeResource g = \<lparr>handleGVR = g, handleNamespace = []\<rparr>"

text \<open>\<^verbatim>\<open>resource.Namespace(ns)\<close>: the handle bound to the namespace \<open>ns\<close>.\<close>

definition inNamespace :: "ResourceInterface \<Rightarrow> string \<Rightarrow> ResourceInterface" where
  "inNamespace h ns = h\<lparr>handleNamespace := ns\<rparr>"

datatype error = ConfigError string | NoWatch GroupVersionResource
  | RemoteRejected string | FailedToSync

text \<open>
  The resolver's answer (client.go is not among the sources): the three fields of it that
  watcher.go reads.
\<close>

record ResourceInfo =
  riGroup :: string
  riVersion :: string
  riName :: string

text \<open>
  The Client, as far as the watcher uses it: its two resolvers, its canonicaliser, and the
  outcome of \<^verbatim>\<open>dynamic.NewForConfig\<close> on its configuration. They are parameters.
\<close>

record Client =
  ResolveResourceType :: "string \<Rightarrow> ResourceInfo"
  Canonicalize :: "string \<Rightarrow> string"
  resolve :: "string \<Rightarrow> ResourceInfo"
  newForConfig :: "error option"

definition gvrOf :: "ResourceInfo \<Rightarrow> GroupVersionResource" where
  "gvrOf ri = \<lparr>Group = riGroup ri, Version = riVersion ri, Resource = riName ri\<rparr>"

section \<open>The Watcher\<close>

type_synonym listener = nat

text \<open>
  What the watcher does to the outside is recorded in a trace: taking and releasing
  \<^verbatim>\<open>w.mutex\<close>, calling a listener, launching a runner, the return of the readiness
  barrier with every watch ready, and calling the remote status update.
\<close>

datatype action = Lock | Unlock | Call listener | Go watchKey | BarrierPassed
  | RemoteUpdateStatus ResourceInterface Resource

text \<open>
  One watch entry. \<open>listener\<close> is the listener captured by the \<^verbatim>\<open>invoke\<close> closure,
  \<open>watched\<close> the handle captured by the informer that \<^verbatim>\<open>runner\<close> runs, \<open>store\<close> the
  contents of its \<^verbatim>\<open>cache.Store\<close>, keyed by object identity. \<open>hasSynced\<close> is the value of
  the informer's readiness predicate. \<open>blocked\<close> tells that the goroutine of the informer
  waits for ever inside one of its handlers: the informer calls its handlers while it
  holds the lock of its queue, and the readiness predicate takes that lock, so a call of
  the predicate from a handler never returns, and neither does any later call of it.
\<close>

record watch =
  resource :: ResourceInterface
  watched :: ResourceInterface
  hasSynced :: bool
  blocked :: bool
  store :: "(string \<times> Resource) list"
  listener :: listener

record Watcher =
  client :: Client
  watches :: "(watchKey \<times> watch) list"
  started :: bool
  stopClosed :: bool
  trace :: "action list"

definition NewWatcher :: "Client \<Rightarrow> Watcher" where
  "NewWatcher c = \<lparr>client = c, watches = [], started = False, stopClosed = False, trace = []\<rparr>"

text \<open>
  \<^verbatim>\<open>WatchInternal\<close> registers one watch: it chooses the handle the informer will list and
  watch through, creates the informer with an empty Store and a false readiness predicate,
  and stores the entry under the key made of the collection and the namespace, replacing
  an entry registered under the same key before.
\<close>

definition WatchInternal ::
  "GroupVersionResource \<Rightarrow> string \<Rightarrow> listener \<Rightarrow> Watcher \<Rightarrow> error + Watcher" where
  "WatchInternal g namespace l w =
     (case newForConfig (client w) of
        Some err \<Rightarrow> Inl err
      | None \<Rightarrow>
          let resource = kubeResource g;
              watched = (if namespace = [] then inNamespace resource namespace else resource)
          in Inr (w\<lparr>watches :=
                AList.update \<lparr>gvr = g, Namespace = namespace\<rparr>
                  \<lparr>resource = resource, watched = watched, hasSynced = False, blocked = False,
                   store = [], listener = l\<rparr>
                  (watches w)\<rparr>))"

definition WatchNamespace :: "string \<Rightarrow> string \<Rightarrow> listener \<Rightarrow> Watcher \<Rightarrow> error + Watcher" where
  "WatchNamespace namespace resources l w =
     WatchInternal (gvrOf (ResolveResourceType (client w) resources)) namespace l w"

definition Watch :: "string \<Rightarrow> listener \<Rightarrow> Watcher \<Rightarrow> error + Watcher" where
  "Watch resources l w = WatchNamespace [] resources l w"

definition setWatch :: "watchKey \<Rightarrow> watch \<Rightarrow> Watcher \<Rightarrow> Watcher" where
  "setWatch k wt w = w\<lparr>watches := AList.update k wt (watches w)\<rparr>"

subsection \<open>Event handlers\<close>

text \<open>
  \<^verbatim>\<open>informerController.HasSynced\<close>, called from outside the handlers of the informer:
  \<open>None\<close> when the call never returns.
\<close>

definition HasSynced :: "watch \<Rightarrow> bool option" where
  "HasSynced wt = (if blocked wt then None else Some (hasSynced wt))"

text \<open>
  A handler that waits for ever inside \<^verbatim>\<open>invoke\<close> never releases \<^verbatim>\<open>w.mutex\<close>: the first
  such handler holds it, the later ones wait for it. The mutex is free otherwise, since
  every other use of it is released before the operation ends.
\<close>

definition mutexHeld :: "Watcher \<Rightarrow> bool" where
  "mutexHeld w = list_ex (\<lambda>(k, wt). blocked wt) (watches w)"

text \<open>
  A call either returns or waits for ever; both leave a state of the watcher behind.
\<close>

datatype call = Returns Watcher | Hangs Watcher

fun after :: "call \<Rightarrow> Watcher" where
  "after (Returns w) = w"
| "after (Hangs w) = w"

text \<open>
  The \<^verbatim>\<open>invoke\<close> closure is called by \<^verbatim>\<open>Start\<close> and by the three handlers; a handler
  runs on the goroutine of the informer, which holds the lock of its queue.
\<close>

datatype caller = FromStart | FromHandler

text \<open>The state left by a call that never returns: a handler keeps its informer with it.\<close>

definition hang :: "caller \<Rightarrow> watchKey \<Rightarrow> watch \<Rightarrow> Watcher \<Rightarrow> Watcher" where
  "hang c k wt w = (case c of FromHandler \<Rightarrow> setWatch k (wt\<lparr>blocked := True\<rparr>) w | FromStart \<Rightarrow> w)"

text \<open>
  The \<^verbatim>\<open>invoke\<close> closure of the watch entry \<open>wt\<close> registered under \<open>k\<close>: it takes the
  mutex, calls \<^verbatim>\<open>hasSynced()\<close>, calls the listener when the answer is true, and releases
  the mutex. It waits for ever for a mutex that is never released, and for the answer of
  \<^verbatim>\<open>hasSynced()\<close> when the caller is a handler of the informer.
\<close>

definition invoke :: "caller \<Rightarrow> watchKey \<Rightarrow> watch \<Rightarrow> Watcher \<Rightarrow> call" where
  "invoke c k wt w =
     (if mutexHeld w then Hangs (hang c k wt w)
      else
        let w1 = w\<lparr>trace := trace w @ [Lock]\<rparr>
        in case (case c of FromHandler \<Rightarrow> None | FromStart \<Rightarrow> HasSynced wt) of
             None \<Rightarrow> Hangs (hang c k wt w1)
           | Some synced \<Rightarrow>
               Returns (w1\<lparr>trace := trace w1 @ (if synced then [Call (listener wt)] else [])
                                      @ [Unlock]\<rparr>))"

text \<open>
  The three handlers given to the informer. \<^verbatim>\<open>UpdateFunc\<close> ignores an update whose
  version token equals that of the object it replaces.
\<close>

definition AddFunc :: "watchKey \<Rightarrow> watch \<Rightarrow> Resource \<Rightarrow> Watcher \<Rightarrow> call" where
  "AddFunc k wt obj w = invoke FromHandler k wt w"

definition UpdateFunc :: "watchKey \<Rightarrow> watch \<Rightarrow> Resource \<Rightarrow> Resource \<Rightarrow> Watcher \<Rightarrow> call" where
  "UpdateFunc k wt oldObj newObj w =
     (if GetResourceVersion oldObj \<noteq> GetResourceVersion newObj then invoke FromHandler k wt w
      else Returns w)"

definition DeleteFunc :: "watchKey \<Rightarrow> watch \<Rightarrow> Resource \<Rightarrow> Watcher \<Rightarrow> call" where
  "DeleteFunc k wt obj w = invoke FromHandler k wt w"

subsection \<open>The informer\<close>

text \<open>
  The informer built by \<^verbatim>\<open>cache.NewInformer\<close> belongs to the client library, not to
  this repository. What it does with a watch entry follows the Reflector of the design:
  one full listing, then the events of the stream, each applied to the Store and handed to
  a handler of watcher.go on the goroutine of the informer.
\<close>

text \<open>
  Modelled from the spec: the identity of an object in the Local Store, namespace and
  name (the name alone for an object without namespace).
\<close>

definition storeKey :: "Resource \<Rightarrow> string" where
  "storeKey obj =
     (if GetNamespace obj = [] then GetName obj else GetNamespace obj @ ''/'' @ GetName obj)"

type_synonym remote = "GroupVersionResource \<Rightarrow> Resource list option"

text \<open>
  Modelled from the spec: the list endpoint behind a Collection Handle. It returns the
  collection of the handle's kind, restricted to the handle's namespace when the handle is
  bound to one; \<open>None\<close> when the listing cannot be established.
\<close>

definition remoteList :: "remote \<Rightarrow> ResourceInterface \<Rightarrow> Resource list option" where
  "remoteList rm h =
     map_option
       (filter (\<lambda>obj. handleNamespace h = [] \<or> GetNamespace obj = handleNamespace h))
       (rm (handleGVR h))"

datatype eventKind = Added | Modified | Deleted

text \<open>
  Modelled from the spec: step 3 of the Reflector, one event of the watch \<open>k\<close>, handled on
  the goroutine of its informer; the result is the state the informer leaves, whether the
  handler returns or not. \<^verbatim>\<open>added\<close> inserts into the Store and goes to \<^verbatim>\<open>AddFunc\<close>;
  \<^verbatim>\<open>deleted\<close> removes from the Store and goes to \<^verbatim>\<open>DeleteFunc\<close>; \<^verbatim>\<open>modified\<close> puts the
  incoming object into the Store and goes to \<^verbatim>\<open>UpdateFunc\<close> together with the object
  stored under that key before, which compares the tokens. A \<^verbatim>\<open>modified\<close> event for a key
  the Store does not hold is taken as an addition. An informer that waits in a handler
  handles nothing more.
\<close>

definition processEvent :: "watchKey \<Rightarrow> eventKind \<times> Resource \<Rightarrow> Watcher \<Rightarrow> Watcher" where
  "processEvent k ev w =
     (case map_of (watches w) k of
        None \<Rightarrow> w
      | Some wt \<Rightarrow>
          if blocked wt then w
          else
            (case ev of
               (Added, obj) \<Rightarrow>
                 let wt' = wt\<lparr>store := AList.update (storeKey obj) obj (store wt)\<rparr>
                 in after (AddFunc k wt' obj (setWatch k wt' w))
             | (Deleted, obj) \<Rightarrow>
                 let wt' = wt\<lparr>store := AList.delete (storeKey obj) (store wt)\<rparr>
                 in after (DeleteFunc k wt' obj (setWatch k wt' w))
             | (Modified, obj) \<Rightarrow>
                 let wt' = wt\<lparr>store := AList.update (storeKey obj) obj (store wt)\<rparr>
                 in (case map_of (store wt) (storeKey obj) of
                       Some oldObj \<Rightarrow> after (UpdateFunc k wt' oldObj obj (setWatch k wt' w))
                     | None \<Rightarrow> after (AddFunc k wt' obj (setWatch k wt' w)))))"

text \<open>
  Modelled from the spec: step 1 and step 4 of the Reflector, the runner of the watch
  \<open>k\<close>. The full listing goes through the handle of the watch; every returned object is
  put into the Store, keyed by identity, and handed to the handlers like a modified one
  (to \<^verbatim>\<open>UpdateFunc\<close> when the Store holds an object under its key, to \<^verbatim>\<open>AddFunc\<close>
  otherwise), in the order of the listing. The readiness predicate becomes true when the
  informer has got through the whole listing. A watch that is ready stays ready, and a
  listing that cannot be established changes nothing.
\<close>

definition initialList :: "remote \<Rightarrow> watchKey \<Rightarrow> Watcher \<Rightarrow> Watcher" where
  "initialList rm k w =
     (case map_of (watches w) k of
        None \<Rightarrow> w
      | Some wt \<Rightarrow>
          if hasSynced wt \<or> blocked wt then w
          else
            (case remoteList rm (watched wt) of
               None \<Rightarrow> w
             | Some objs \<Rightarrow>
                 let w1 = foldl (\<lambda>w' obj. processEvent k (Modified, obj) w') w objs
                 in (case map_of (watches w1) k of
                       None \<Rightarrow> w1
                     | Some wt1 \<Rightarrow>
                         if blocked wt1 then w1 else setWatch k (wt1\<lparr>hasSynced := True\<rparr>) w1)))"

subsection \<open>Lifecycle\<close>

text \<open>
  The runners are goroutines. Between two polls of the readiness barrier each of them
  makes its progress: the runner of a watch that is neither ready nor blocked tries its
  listing.
\<close>

definition runnersStep :: "remote \<Rightarrow> Watcher \<Rightarrow> Watcher" where
  "runnersStep rm w = foldl (\<lambda>w' k. initialList rm k w') w (map fst (watches w))"

text \<open>
  One poll of the barrier: the readiness predicates are called in turn until one answers
  false; \<open>None\<close> when a call never returns.
\<close>

fun poll :: "(watchKey \<times> watch) list \<Rightarrow> bool option" where
  "poll [] = Some True"
| "poll ((k, wt) # kws) =
     (case HasSynced wt of
        None \<Rightarrow> None
      | Some synced \<Rightarrow> if synced then poll kws else Some False)"


text \<open>
  Modelled from the spec: the readiness barrier, \<^verbatim>\<open>cache.WaitForCacheSync\<close> of the client
  library. It polls until every readiness predicate is true or the stop channel is closed;
  between two polls the runners make progress. It has no timeout: the result is \<open>None\<close>
  when it polls for ever, and \<open>Waiting\<close> when a call of a readiness predicate never
  returns.
\<close>

datatype wait = AllSynced Watcher | StopClosed Watcher | Waiting Watcher

partial_function (option) WaitForCacheSync :: "remote \<Rightarrow> Watcher \<Rightarrow> wait option" where
  "WaitForCacheSync rm w =
     (case poll (watches w) of
        None \<Rightarrow> Some (Waiting w)
      | Some synced \<Rightarrow>
          if synced then Some (AllSynced w)
          else if stopClosed w then Some (StopClosed w)
          else WaitForCacheSync rm (runnersStep rm w))"

declare WaitForCacheSync.simps [code]

text \<open>
  How a call of \<^verbatim>\<open>Start\<close> ends: it returns, it waits for ever in a call that never
  returns, or it ends the process in \<^verbatim>\<open>log.Fatal\<close>.
\<close>

datatype exit = Returned Watcher | Hung Watcher | Fatal error

text \<open>The first lines of a first \<^verbatim>\<open>Start\<close>: the flag is set and the runners are launched.\<close>

definition launch :: "Watcher \<Rightarrow> Watcher" where
  "launch w =
     w\<lparr>started := True,
       trace := trace w @ [Lock, Unlock] @ map (\<lambda>(k, wt). Go k) (watches w)\<rparr>"

text \<open>The last loop of \<^verbatim>\<open>Start\<close>: \<^verbatim>\<open>invoke\<close> of every watch entry.\<close>

fun notify :: "(watchKey \<times> watch) list \<Rightarrow> Watcher \<Rightarrow> exit" where
  "notify [] w = Returned w"
| "notify ((k, wt) # kws) w =
     (case invoke FromStart k wt w of
        Returns w' \<Rightarrow> notify kws w'
      | Hangs w' \<Rightarrow> Hung w')"

text \<open>
  \<^verbatim>\<open>Start\<close>. The result is \<open>None\<close> when the barrier polls for ever. The three loops range
  over the Go map \<^verbatim>\<open>w.watches\<close>, whose order of iteration is not specified; here it is the
  order of the association list. The stop channel is the field \<^verbatim>\<open>stop\<close>, which \<^verbatim>\<open>Start\<close>
  reads as \<^verbatim>\<open>w.stopCh\<close>.
\<close>

definition Start :: "remote \<Rightarrow> Watcher \<Rightarrow> exit option" where
  "Start rm w =
     (if mutexHeld w then Some (Hung w)
      else if started w then Some (Returned (w\<lparr>trace := trace w @ [Lock, Unlock]\<rparr>))
      else
        (case WaitForCacheSync rm (launch w) of
           None \<Rightarrow> None
         | Some (Waiting w3) \<Rightarrow> Some (Hung w3)
         | Some (StopClosed w3) \<Rightarrow> Some (Fatal FailedToSync)
         | Some (AllSynced w3) \<Rightarrow>
             Some (notify (watches w3) (w3\<lparr>trace := trace w3 @ [BarrierPassed]\<rparr>))))"

subsection \<open>Queries and the status update\<close>

text \<open>
  \<^verbatim>\<open>ListInternal\<close> returns the contents of the objects of one Store, in the order of the
  Store, and the empty sequence (Go's \<^verbatim>\<open>nil\<close>) when the key is not registered.
\<close>

definition ListInternal :: "Watcher \<Rightarrow> GroupVersionResource \<Rightarrow> string \<Rightarrow> Resource list" where
  "ListInternal w g namespace =
     (case map_of (watches w) \<lparr>gvr = g, Namespace = namespace\<rparr> of
        Some wt \<Rightarrow> map snd (store wt)
      | None \<Rightarrow> [])"

definition List :: "Watcher \<Rightarrow> string \<Rightarrow> Resource list" where
  "List w kind =
     ListInternal w (gvrOf (resolve (client w) (Canonicalize (client w) kind))) []"

text \<open>
  The remote status update is a parameter: the server's answer to the call made through
  a handle with an object body.
\<close>

type_synonym statusEndpoint = "ResourceInterface \<Rightarrow> Resource \<Rightarrow> error + Resource"

text \<open>
  \<^verbatim>\<open>UpdateStatus\<close> returns its result together with the watcher after the call. It takes no
  mutex and calls no listener.
\<close>

definition UpdateStatus ::
  "statusEndpoint \<Rightarrow> Resource \<Rightarrow> Watcher \<Rightarrow> (error + Resource) \<times> Watcher" where
  "UpdateStatus remote res w =
     (let g = gvrOf (resolve (client w) (Canonicalize (client w) (Kind res)));
          k = \<lparr>gvr = g, Namespace = GetNamespace res\<rparr>
      in case map_of (watches w) k of
           None \<Rightarrow> (Inl (NoWatch g), w)
         | Some wt \<Rightarrow>
             let h = inNamespace (resource wt) (GetNamespace res);
                 w' = w\<lparr>trace := trace w @ [RemoteUpdateStatus h res]\<rparr>
             in (case remote h res of
                   Inl err \<Rightarrow> (Inl err, w')
                 | Inr result \<Rightarrow>
                     (Inr result,
                      setWatch k (wt\<lparr>store := AList.update (storeKey result) result (store wt)\<rparr>) w')))"

text \<open>The loop of \<^verbatim>\<open>Get\<close> over the listed resources; the empty Resource when it ends.\<close>

fun scan :: "Resource list \<Rightarrow> string \<Rightarrow> Resource" where
  "scan [] qname = []"
| "scan (res # resources) qname =
     (if EqualFold (QName res) qname then res else scan resources qname)"

definition Get :: "Watcher \<Rightarrow> string \<Rightarrow> string \<Rightarrow> Resource" where
  "Get w kind qname = scan (List w kind) qname"


section \<open>Ownership of query results\<close>

text \<open>
  A Go map is a reference: copying a \<^verbatim>\<open>Resource\<close> copies the reference, not the
  mapping. To see what a caller shares with the Store, the objects are placed in a memory:
  a \<open>ref\<close> names one mapping, \<open>contents\<close> gives the mapping it currently holds, and a
  stored \<^verbatim>\<open>*unstructured.Unstructured\<close> holds the reference of its \<^verbatim>\<open>Object\<close> field.
  The definitions above work on the contents alone.
\<close>

type_synonym ref = nat

record Unstructured =
  Object :: ref

record Memory =
  stores :: "(watchKey \<times> (string \<times> Unstructured) list) list"
  contents :: "ref \<Rightarrow> Resource"

text \<open>\<^verbatim>\<open>UnstructuredContent\<close> returns the \<^verbatim>\<open>Object\<close> mapping of the receiver.\<close>

definition UnstructuredContent :: "Unstructured \<Rightarrow> ref" where
  "UnstructuredContent obj = Object obj"

text \<open>\<^verbatim>\<open>ListInternal\<close> on the memory: the references it hands to the caller.\<close>

definition ListInternalRefs :: "Memory \<Rightarrow> GroupVersionResource \<Rightarrow> string \<Rightarrow> ref list" where
  "ListInternalRefs m g namespace =
     (case map_of (stores m) \<lparr>gvr = g, Namespace = namespace\<rparr> of
        Some st \<Rightarrow> map (\<lambda>(key, obj). UnstructuredContent obj) st
      | None \<Rightarrow> [])"

text \<open>The caller's \<^verbatim>\<open>res[field] = value\<close> on a Resource it holds.\<close>

definition assign :: "ref \<Rightarrow> string \<Rightarrow> jvalue \<Rightarrow> Memory \<Rightarrow> Memory" where
  "assign r field v m = m\<lparr>contents := (contents m)(r := AList.update field v (contents m r))\<rparr>"

text \<open>What the Store of a key holds, read through the memory.\<close>

definition storeContents :: "Memory \<Rightarrow> watchKey \<Rightarrow> (string \<times> Resource) list" where
  "storeContents m k =
     (case map_of (stores m) k of
        Some st \<Rightarrow> map (\<lambda>(key, obj). (key, contents m (Object obj))) st
      | None \<Rightarrow> [])"

text \<open>The watcher whose Stores hold the contents found in the memory.\<close>

definition view :: "Memory \<Rightarrow> Watcher \<Rightarrow> Watcher" where
  "view m w = w\<lparr>watches := map (\<lambda>(k, wt). (k, wt\<lparr>store := storeContents m k\<rparr>)) (watches w)\<rparr>"

section \<open>Observing the trace\<close>

text \<open>The listeners called in a trace, in order.\<close>

fun calls :: "action list \<Rightarrow> listener list" where
  "calls [] = []"
| "calls (Call l # tr) = l # calls tr"
| "calls (a # tr) = calls tr"

text \<open>The runners launched in a trace, in order.\<close>

fun launches :: "action list \<Rightarrow> watchKey list" where
  "launches [] = []"
| "launches (Go k # tr) = k # launches tr"
| "launches (a # tr) = launches tr"

section \<open>Progress of the informers\<close>

text \<open>
  What the work of the informers can change from one state of the watcher to a later one:
  the client, the flags, the keys and the listeners stay, no listener is called, a mutex
  that is held stays held, and the trace grows only when a handler takes the mutex and
  keeps it.
\<close>

definition follows :: "Watcher \<Rightarrow> Watcher \<Rightarrow> bool" where
  "follows w w' =
     (client w' = client w \<and> started w' = started w \<and> stopClosed w' = stopClosed w
      \<and> map (\<lambda>(k, wt). (k, listener wt)) (watches w')
          = map (\<lambda>(k, wt). (k, listener wt)) (watches w)
      \<and> calls (trace w') = calls (trace w)
      \<and> (mutexHeld w \<longrightarrow> mutexHeld w')
      \<and> (\<not> mutexHeld w' \<longrightarrow> trace w' = trace w))"

section \<open>Example values\<close>

text \<open>A resolver, a client, objects and remote collections to run the definitions on.\<close>

definition exResolve :: "string \<Rightarrow> ResourceInfo" where
  "exResolve s =
     \<lparr>riGroup = [], riVersion = ''v1'', riName = (if s = ''Pod'' then ''pods'' else s)\<rparr>"

definition exClient :: Client where
  "exClient = \<lparr>ResolveResourceType = exResolve, Canonicalize = (\<lambda>s. s), resolve = exResolve,
                newForConfig = None\<rparr>"

definition exObject :: "string \<Rightarrow> string \<Rightarrow> string \<Rightarrow> Resource" where
  "exObject name ns rv =
     [(''kind'', JString ''Pod''),
      (''metadata'', JObject [(''name'', JString name), (''namespace'', JString ns),
                             (''resourceVersion'', JString rv)])]"

definition exPods :: GroupVersionResource where
  "exPods = \<lparr>Group = [], Version = ''v1'', Resource = ''pods''\<rparr>"

definition exServices :: GroupVersionResource where
  "exServices = \<lparr>Group = [], Version = ''v1'', Resource = ''services''\<rparr>"


text \<open>A cluster whose collections are all empty.\<close>

definition exEmptyRemote :: remote where
  "exEmptyRemote g = Some []"

text \<open>Pods and services watched in all namespaces, by listeners 1 and 2.\<close>

definition exWatcher :: Watcher where
  "exWatcher = projr (Watch ''services'' 2 (projr (Watch ''Pod'' 1 (NewWatcher exClient))))"

text \<open>Pods watched in namespace \<^verbatim>\<open>ns-a\<close> only, by listener 1.\<close>

definition exNsWatcher :: Watcher where
  "exNsWatcher = projr (WatchNamespace ''ns-a'' ''Pod'' 1 (NewWatcher exClient))"


text \<open>The state a call of \<^verbatim>\<open>Start\<close> has returned with, and the state it waits in for ever.\<close>

definition returnedWith :: "exit option \<Rightarrow> Watcher option" where
  "returnedWith r = (case r of Some (Returned w) \<Rightarrow> Some w | _ \<Rightarrow> None)"


text \<open>The first two watchers after \<^verbatim>\<open>Start\<close> against the empty cluster.\<close>

definition exReady :: Watcher where
  "exReady = the (returnedWith (Start exEmptyRemote exWatcher))"

definition exNsReady :: Watcher where
  "exNsReady = the (returnedWith (Start exEmptyRemote exNsWatcher))"


text \<open>A status endpoint that accepts every update, and one that rejects every update.\<close>

definition exAccept :: statusEndpoint where
  "exAccept h res = Inr (exObject (GetName res) (handleNamespace h) ''9'')"

definition exReject :: statusEndpoint where
  "exReject h res = Inl (RemoteRejected ''conflict'')"

text \<open>
  The first watcher, ready, after accepted status updates of two pods without namespace:
  the Store of the pods holds the two objects the server returned.
\<close>

definition exListed :: Watcher where
  "exListed = snd (UpdateStatus exAccept (exObject ''bar'' [] ''1'')
                (snd (UpdateStatus exAccept (exObject ''foo'' [] ''1'') exReady)))"

text \<open>
  The second watcher, ready, after one accepted status update: its Store holds the object
  the server returned, with token 9.
\<close>

definition exUpdated :: Watcher where
  "exUpdated = snd (UpdateStatus exAccept (exObject ''foo'' ''ns-a'' ''1'') exNsReady)"


text \<open>A memory in which the Store of the pods holds one object, at reference 0.\<close>

definition exMemory :: Memory where
  "exMemory = \<lparr>stores = [(\<lparr>gvr = exPods, Namespace = []\<rparr>, [(''default/foo'', \<lparr>Object = 0\<rparr>)])],
               contents = (\<lambda>r. if r = 0 then exObject ''foo'' ''default'' ''3'' else [])\<rparr>"

section \<open>Auxiliary facts\<close>

lemma calls_append: "calls (xs @ ys) = calls xs @ calls ys"
  by (induction xs rule: calls.induct) simp_all

lemma launches_append: "launches (xs @ ys) = launches xs @ launches ys"
  by (induction xs rule: launches.induct) simp_all


lemma launches_Go: "launches (map (\<lambda>(k, wt). Go k) kws) = map fst kws"
  by (induction kws) auto

lemma setWatch_fields:
  "trace (setWatch k wt w) = trace w" "started (setWatch k wt w) = started w"
  "stopClosed (setWatch k wt w) = stopClosed w" "client (setWatch k wt w) = client w"
  "map_of (watches (setWatch k wt w)) = (map_of (watches w))(k \<mapsto> wt)"
  "watches (setWatch k wt w) = AList.update k wt (watches w)"
  by (simp_all add: setWatch_def update_conv')

text \<open>Replacing a registered entry keeps the keys in place.\<close>

lemma update_listeners:
  "map_of al k = Some wt \<Longrightarrow> listener wt' = listener wt \<Longrightarrow>
   map (\<lambda>(k, wt). (k, listener wt)) (AList.update k wt' al) = map (\<lambda>(k, wt). (k, listener wt)) al"
  by (induction al) (auto split: if_splits)

lemma update_blocked_mono:
  "map_of al k = Some wt \<Longrightarrow> (blocked wt \<longrightarrow> blocked wt') \<Longrightarrow>
   list_ex (\<lambda>(k, wt). blocked wt) al \<Longrightarrow> list_ex (\<lambda>(k, wt). blocked wt) (AList.update k wt' al)"
  by (induction al) (auto split: if_splits)

lemma update_blocked_new:
  "map_of al k = Some wt \<Longrightarrow> blocked wt' \<Longrightarrow> list_ex (\<lambda>(k, wt). blocked wt) (AList.update k wt' al)"
  by (induction al) (auto split: if_splits)

lemma update_blocked_same:
  "map_of al k = Some wt \<Longrightarrow> blocked wt' = blocked wt \<Longrightarrow>
   list_ex (\<lambda>(k, wt). blocked wt) (AList.update k wt' al) = list_ex (\<lambda>(k, wt). blocked wt) al"
  by (induction al) (auto split: if_splits)

lemma mutexHeld_setWatch_same:
  "map_of (watches w) k = Some wt \<Longrightarrow> blocked wt' = blocked wt \<Longrightarrow>
   mutexHeld (setWatch k wt' w) = mutexHeld w"
  by (simp add: mutexHeld_def setWatch_def update_blocked_same)

lemma mutexHeld_trace [simp]: "mutexHeld (w\<lparr>trace := t\<rparr>) = mutexHeld w"
  by (simp add: mutexHeld_def)

lemma after_invoke_handler:
  "after (invoke FromHandler k wt w) =
     setWatch k (wt\<lparr>blocked := True\<rparr>) (w\<lparr>trace := trace w @ (if mutexHeld w then [] else [Lock])\<rparr>)"
  by (simp add: invoke_def hang_def Let_def setWatch_def)

lemma invoke_start_free:
  "\<not> mutexHeld w \<Longrightarrow> \<not> blocked wt \<Longrightarrow>
   invoke FromStart k wt w =
     Returns (w\<lparr>trace := trace w @ (if hasSynced wt then [Lock, Call (listener wt), Unlock]
                                   else [Lock, Unlock])\<rparr>)"
  by (simp add: invoke_def HasSynced_def Let_def)

lemma invoke_calls:
  "calls (trace (after (invoke c k wt w))) =
     calls (trace w) @ (if c = FromStart \<and> \<not> mutexHeld w \<and> \<not> blocked wt \<and> hasSynced wt
                        then [listener wt] else [])"
  by (cases c) (auto simp: invoke_def hang_def HasSynced_def Let_def setWatch_fields calls_append)

text \<open>What one event leaves behind.\<close>

lemma processEvent_cases:
  assumes "map_of (watches w) k = Some wt"
  shows "processEvent k ev w = w
       \<or> (\<exists>st. processEvent k ev w = setWatch k (wt\<lparr>store := st\<rparr>) w)
       \<or> (\<exists>st. \<not> blocked wt \<and> processEvent k ev w =
             setWatch k (wt\<lparr>store := st, blocked := True\<rparr>)
               (w\<lparr>trace := trace w @ (if mutexHeld w then [] else [Lock])\<rparr>))"
proof -
  obtain kind obj where ev: "ev = (kind, obj)" by (cases ev)
  show ?thesis
  proof (cases "blocked wt")
    case True
    then show ?thesis using assms by (simp add: processEvent_def)
  next
    case False
    have u: "AList.update k a (AList.update k b al) = AList.update k a al" for a b al
      by (induction al) auto
    have m: "mutexHeld (setWatch k (wt\<lparr>store := st\<rparr>) w) = mutexHeld w" for st
      by (rule mutexHeld_setWatch_same[OF assms]) simp
    have s: "setWatch k a (setWatch k b v) = setWatch k a v" for a b v
      by (simp add: setWatch_def u)
    have t: "setWatch k a (v\<lparr>trace := x\<rparr>) = (setWatch k a v)\<lparr>trace := x\<rparr>" for a v x
      by (simp add: setWatch_def)
    show ?thesis using assms False
      by (cases kind)
         (auto simp: ev processEvent_def Let_def AddFunc_def UpdateFunc_def DeleteFunc_def
            after_invoke_handler m s t setWatch_fields split: option.splits)
  qed
qed

lemma follows_refl: "follows w w"
  by (simp add: follows_def)

lemma follows_trans: "follows a b \<Longrightarrow> follows b c \<Longrightarrow> follows a c"
  by (auto simp: follows_def)

lemma follows_setWatch:
  assumes "map_of (watches w) k = Some wt" and "listener wt' = listener wt"
    and "blocked wt' = blocked wt"
  shows "follows w (setWatch k wt' w)"
  using assms
  by (simp add: follows_def setWatch_fields update_listeners mutexHeld_setWatch_same)

lemma follows_block:
  assumes "map_of (watches w) k = Some wt" and "listener wt' = listener wt" and "blocked wt'"
  shows "follows w (setWatch k wt' (w\<lparr>trace := trace w @ (if mutexHeld w then [] else [Lock])\<rparr>))"
proof -
  define v where "v = setWatch k wt' (w\<lparr>trace := trace w @ (if mutexHeld w then [] else [Lock])\<rparr>)"
  have 1: "mutexHeld v"
    using assms by (simp add: v_def mutexHeld_def setWatch_def update_blocked_new)
  have 2: "map (\<lambda>(k, wt). (k, listener wt)) (watches v) = map (\<lambda>(k, wt). (k, listener wt)) (watches w)"
    using assms by (simp add: v_def setWatch_fields update_listeners)
  have 3: "calls (trace v) = calls (trace w)"
    by (simp add: v_def setWatch_fields calls_append)
  have 4: "client v = client w" "started v = started w" "stopClosed v = stopClosed w"
    by (simp_all add: v_def setWatch_fields)
  from 1 2 3 4 have "follows w v" unfolding follows_def by blast
  then show ?thesis by (simp only: v_def)
qed

lemma follows_processEvent: "follows w (processEvent k ev w)"
proof (cases "map_of (watches w) k")
  case None
  then show ?thesis by (simp add: processEvent_def follows_refl)
next
  case (Some wt)
  from processEvent_cases[OF Some, of ev] show ?thesis
  proof (elim disjE exE conjE)
    assume "processEvent k ev w = w"
    then show ?thesis by (simp add: follows_refl)
  next
    fix st assume "processEvent k ev w = setWatch k (wt\<lparr>store := st\<rparr>) w"
    then show ?thesis using follows_setWatch[OF Some, of "wt\<lparr>store := st\<rparr>"] by simp
  next
    fix st assume "processEvent k ev w =
             setWatch k (wt\<lparr>store := st, blocked := True\<rparr>)
               (w\<lparr>trace := trace w @ (if mutexHeld w then [] else [Lock])\<rparr>)"
    then show ?thesis using follows_block[OF Some, of "wt\<lparr>store := st, blocked := True\<rparr>"] by simp
  qed
qed

lemma follows_foldl:
  assumes "\<And>x v. follows v (f v x)"
  shows "follows w (foldl f w xs)"
proof (induction xs arbitrary: w)
  case Nil
  show ?case by (simp add: follows_refl)
next
  case (Cons x xs)
  from follows_trans[OF assms[of w x] Cons.IH[of "f w x"]] show ?case by simp
qed
















lemma EqualFold_example: "EqualFold ''Foo.default'' ''foo.DEFAULT''"
  by code_simp

lemma scan_none: "\<forall>res \<in> set rs. \<not> EqualFold (QName res) q \<Longrightarrow> scan rs q = []"
  by (induction rs) simp_all

lemma scan_first:
  "scan (pre @ res # post) q = res"
  if "\<forall>x \<in> set pre. \<not> EqualFold (QName x) q" and "EqualFold (QName res) q"
  using that by (induction pre) simp_all

lemma EqualFold_right: "EqualFold a b \<Longrightarrow> EqualFold x a = EqualFold x b"
  by (simp add: EqualFold_def)

lemma scan_fold: "EqualFold q1 q2 \<Longrightarrow> scan rs q1 = scan rs q2"
  by (induction rs) (simp_all add: EqualFold_right)

lemma map_of_view:
  "map_of (map (\<lambda>(k, wt). (k, wt\<lparr>store := f k\<rparr>)) kws) k
   = map_option (\<lambda>wt. wt\<lparr>store := f k\<rparr>) (map_of kws k)"
  by (induction kws) auto

lemma ListInternal_view:
  "ListInternal (view m w) g ns =
     (if map_of (watches w) \<lparr>gvr = g, Namespace = ns\<rparr> = None then []
      else map (contents m) (ListInternalRefs m g ns))"
proof -
  have "ListInternal (view m w) g ns =
     (case map_of (watches w) \<lparr>gvr = g, Namespace = ns\<rparr> of
        Some wt \<Rightarrow> map snd (storeContents m \<lparr>gvr = g, Namespace = ns\<rparr>) | None \<Rightarrow> [])"
    by (simp add: ListInternal_def view_def map_of_view[where f = "storeContents m"]
          split: option.splits)
  moreover have "map snd (storeContents m \<lparr>gvr = g, Namespace = ns\<rparr>)
                 = map (contents m) (ListInternalRefs m g ns)"
    by (simp add: storeContents_def ListInternalRefs_def UnstructuredContent_def split_def
          split: option.splits)
  ultimately show ?thesis by (simp split: option.splits)
qed

lemma processEvent_Modified_stored:
  assumes "map_of (watches w) k = Some wt" and "\<not> blocked wt"
    and "map_of (store wt) (storeKey newObj) = Some oldObj"
  shows "processEvent k (Modified, newObj) w =
     after (UpdateFunc k (wt\<lparr>store := AList.update (storeKey newObj) newObj (store wt)\<rparr>) oldObj newObj
       (setWatch k (wt\<lparr>store := AList.update (storeKey newObj) newObj (store wt)\<rparr>) w))"
  using assms by (simp add: processEvent_def Let_def)

lemma processEvent_blocked:
  "map_of (watches w) k = Some wt \<Longrightarrow> blocked wt \<Longrightarrow> processEvent k ev w = w"
  by (simp add: processEvent_def)

lemma events_calls:
  "calls (trace (foldl (\<lambda>w ev. processEvent k ev w) w evs)) = calls (trace w)"
proof -
  have "follows w (foldl (\<lambda>w ev. processEvent k ev w) w evs)"
    by (rule follows_foldl) (rule follows_processEvent)
  then show ?thesis by (simp add: follows_def)
qed




section \<open>The claims\<close>




text \<open>
  Claim C2 (suppression of echoes): on every \<^verbatim>\<open>modified\<close> event the listener is called
  if and only if the version token of the incoming object differs from the token of the
  object stored under its key.

  In the run below the pods are registered in \<^verbatim>\<open>ns-a\<close>, \<^verbatim>\<open>Start\<close> has returned against an
  empty cluster, and a status update has put an object with token 9 into the Store. The
  watch is ready and the mutex is free. A \<^verbatim>\<open>modified\<close> event for that object with token 10
  reaches \<^verbatim>\<open>UpdateFunc\<close>, which calls \<^verbatim>\<open>invoke\<close>; \<^verbatim>\<open>invoke\<close> takes the mutex and calls the
  readiness predicate from the handler of the informer, and that call never returns: no
  listener is called, and the mutex stays taken.
\<close>

theorem modified_event_handler_never_reaches_listener:
  "hasSynced (the (map_of (watches exUpdated) \<lparr>gvr = exPods, Namespace = ''ns-a''\<rparr>))
   \<and> \<not> mutexHeld exUpdated
   \<and> map_of (store (the (map_of (watches exUpdated) \<lparr>gvr = exPods, Namespace = ''ns-a''\<rparr>)))
        (storeKey (exObject ''foo'' ''ns-a'' ''10'')) = Some (exObject ''foo'' ''ns-a'' ''9'')
   \<and> GetResourceVersion (exObject ''foo'' ''ns-a'' ''10'')
        \<noteq> GetResourceVersion (exObject ''foo'' ''ns-a'' ''9'')
   \<and> calls (trace (processEvent \<lparr>gvr = exPods, Namespace = ''ns-a''\<rparr>
              (Modified, exObject ''foo'' ''ns-a'' ''10'') exUpdated))
       = calls (trace exUpdated)
   \<and> trace (processEvent \<lparr>gvr = exPods, Namespace = ''ns-a''\<rparr>
              (Modified, exObject ''foo'' ''ns-a'' ''10'') exUpdated)
       = trace exUpdated @ [Lock]
   \<and> mutexHeld (processEvent \<lparr>gvr = exPods, Namespace = ''ns-a''\<rparr>
              (Modified, exObject ''foo'' ''ns-a'' ''10'') exUpdated)"
  by code_simp



text \<open>
  Claim C4 (\<^verbatim>\<open>UpdateStatus\<close>): the collection key is made of the kind of the resource and
  the namespace of the resource itself. When no watch is registered under that key, the
  result is the error \<^verbatim>\<open>no watch\<close> and nothing else happens. When the remote update
  fails, its error is returned, the Stores are unchanged and the remote has been called
  once. When it succeeds, the object returned by the server is returned and is the object
  the Store of that watch holds under its identity; the remote has been called once.
\<close>

theorem UpdateStatus_outcomes:
  fixes remote res w
  defines "g \<equiv> gvrOf (resolve (client w) (Canonicalize (client w) (Kind res)))"
  defines "k \<equiv> \<lparr>gvr = g, Namespace = GetNamespace res\<rparr>"
  defines "h \<equiv> \<lambda>wt. inNamespace (resource wt) (GetNamespace res)"
  shows "(map_of (watches w) k = None \<longrightarrow> UpdateStatus remote res w = (Inl (NoWatch g), w))
   \<and> (map_of (watches w) k = Some wt \<and> remote (h wt) res = Inl err \<longrightarrow>
         fst (UpdateStatus remote res w) = Inl err
       \<and> watches (snd (UpdateStatus remote res w)) = watches w
       \<and> trace (snd (UpdateStatus remote res w)) = trace w @ [RemoteUpdateStatus (h wt) res])
   \<and> (map_of (watches w) k = Some wt \<and> remote (h wt) res = Inr result \<longrightarrow>
         fst (UpdateStatus remote res w) = Inr result
       \<and> map_of (watches (snd (UpdateStatus remote res w))) k
           = Some (wt\<lparr>store := AList.update (storeKey result) result (store wt)\<rparr>)
       \<and> map_of (AList.update (storeKey result) result (store wt)) (storeKey result) = Some result
       \<and> ListInternal (snd (UpdateStatus remote res w)) g (GetNamespace res)
           = map snd (AList.update (storeKey result) result (store wt))
       \<and> trace (snd (UpdateStatus remote res w)) = trace w @ [RemoteUpdateStatus (h wt) res])"
  by (auto simp: UpdateStatus_def Let_def g_def k_def h_def setWatch_fields update_conv'
        ListInternal_def)

theorem UpdateStatus_outcomes_witness:
  "map_of (watches exNsReady) \<lparr>gvr = exPods, Namespace = ''default''\<rparr> = None
   \<and> fst (UpdateStatus exAccept (exObject ''foo'' ''default'' ''3'') exNsReady) = Inl (NoWatch exPods)
   \<and> fst (UpdateStatus exReject (exObject ''foo'' ''ns-a'' ''1'') exNsReady)
       = Inl (RemoteRejected ''conflict'')
   \<and> watches (snd (UpdateStatus exReject (exObject ''foo'' ''ns-a'' ''1'') exNsReady))
       = watches exNsReady
   \<and> fst (UpdateStatus exAccept (exObject ''foo'' ''ns-a'' ''1'') exNsReady)
       = Inr (exObject ''foo'' ''ns-a'' ''9'')
   \<and> ListInternal (snd (UpdateStatus exAccept (exObject ''foo'' ''ns-a'' ''1'') exNsReady))
         exPods ''ns-a''
       = [exObject ''foo'' ''ns-a'' ''9'']"
proof -
  let ?k = "\<lparr>gvr = exPods, Namespace = ''ns-a''\<rparr>"
  let ?wt = "the (map_of (watches exNsReady) ?k)"
  let ?x = "exObject ''foo'' ''ns-a'' ''1''"
  let ?y = "exObject ''foo'' ''default'' ''3''"
  have g: "gvrOf (resolve (client exNsReady) (Canonicalize (client exNsReady) (Kind ?x))) = exPods"
          "gvrOf (resolve (client exNsReady) (Canonicalize (client exNsReady) (Kind ?y))) = exPods"
    by code_simp+
  have n: "GetNamespace ?x = ''ns-a''" "GetNamespace ?y = ''default''" by code_simp+
  have h0: "map_of (watches exNsReady) \<lparr>gvr = exPods, Namespace = ''default''\<rparr> = None"
    by code_simp
  have h1: "map_of (watches exNsReady) ?k = Some ?wt" by code_simp
  have h2: "exReject (inNamespace (resource ?wt) ''ns-a'') ?x = Inl (RemoteRejected ''conflict'')"
    by code_simp
  have h3: "exAccept (inNamespace (resource ?wt) ''ns-a'') ?x = Inr (exObject ''foo'' ''ns-a'' ''9'')"
    by code_simp
  have s: "map snd (AList.update (storeKey (exObject ''foo'' ''ns-a'' ''9''))
                      (exObject ''foo'' ''ns-a'' ''9'') (store ?wt))
           = [exObject ''foo'' ''ns-a'' ''9'']"
    by code_simp
  from UpdateStatus_outcomes[where w=exNsReady and res="?y" and remote=exAccept] h0
  have a: "fst (UpdateStatus exAccept ?y exNsReady) = Inl (NoWatch exPods)"
    by (simp add: g n)
  from UpdateStatus_outcomes[where w=exNsReady and res="?x" and wt="?wt" and remote=exReject
      and err="RemoteRejected ''conflict''"] h1 h2
  have b: "fst (UpdateStatus exReject ?x exNsReady) = Inl (RemoteRejected ''conflict'')
         \<and> watches (snd (UpdateStatus exReject ?x exNsReady)) = watches exNsReady"
    by (simp add: g n)
  from UpdateStatus_outcomes[where w=exNsReady and res="?x" and wt="?wt" and remote=exAccept
      and result="exObject ''foo'' ''ns-a'' ''9''"] h1 h3
  have c: "fst (UpdateStatus exAccept ?x exNsReady) = Inr (exObject ''foo'' ''ns-a'' ''9'')
         \<and> ListInternal (snd (UpdateStatus exAccept ?x exNsReady)) exPods ''ns-a''
           = map snd (AList.update (storeKey (exObject ''foo'' ''ns-a'' ''9''))
                      (exObject ''foo'' ''ns-a'' ''9'') (store ?wt))"
    by (simp add: g n)
  from h0 a b c s show ?thesis by simp
qed

text \<open>
  Claim C5 (no second notification for an own write): after a successful
  \<^verbatim>\<open>UpdateStatus\<close> for an object, a \<^verbatim>\<open>modified\<close> event for the same object that carries
  the version token the update returned calls no listener: the Store of the watch the
  update went through already holds the object the server returned, so the handler of
  that watch sees equal tokens.
\<close>

theorem UpdateStatus_echo_is_suppressed:
  assumes "UpdateStatus remote x w = (Inr result, w')"
    and "storeKey ev = storeKey result"
    and "GetResourceVersion ev = GetResourceVersion result"
  shows "calls (trace (processEvent
            \<lparr>gvr = gvrOf (resolve (client w) (Canonicalize (client w) (Kind x))),
             Namespace = GetNamespace x\<rparr> (Modified, ev) w')) = calls (trace w')
       \<and> trace (processEvent
            \<lparr>gvr = gvrOf (resolve (client w) (Canonicalize (client w) (Kind x))),
             Namespace = GetNamespace x\<rparr> (Modified, ev) w') = trace w'"
proof -
  define k where "k = \<lparr>gvr = gvrOf (resolve (client w) (Canonicalize (client w) (Kind x))),
             Namespace = GetNamespace x\<rparr>"
  from assms(1) obtain wt where wt: "map_of (watches w) k = Some wt"
    by (auto simp: UpdateStatus_def Let_def k_def split: option.splits)
  define wt' where "wt' = wt\<lparr>store := AList.update (storeKey result) result (store wt)\<rparr>"
  from assms(1) wt have w': "map_of (watches w') k = Some wt'"
    by (auto simp: UpdateStatus_def Let_def k_def wt'_def setWatch_fields update_conv' split: sum.splits)
  have st: "map_of (store wt') (storeKey ev) = Some result"
    by (simp add: wt'_def assms(2) update_conv')
  have "trace (processEvent k (Modified, ev) w') = trace w'"
  proof (cases "blocked wt'")
    case True
    then show ?thesis by (simp add: processEvent_blocked[OF w'])
  next
    case False
    show ?thesis
      by (simp add: processEvent_Modified_stored[OF w' False st] UpdateFunc_def assms(3) setWatch_fields)
  qed
  then show ?thesis by (simp add: k_def)
qed

theorem UpdateStatus_echo_is_suppressed_witness:
  "fst (UpdateStatus exAccept (exObject ''foo'' ''ns-a'' ''1'') exNsReady)
     = Inr (exObject ''foo'' ''ns-a'' ''9'')
   \<and> calls (trace exUpdated) = [1]
   \<and> calls (trace (processEvent \<lparr>gvr = exPods, Namespace = ''ns-a''\<rparr>
              (Modified, exObject ''foo'' ''ns-a'' ''9'') exUpdated)) = [1]
   \<and> trace (processEvent \<lparr>gvr = exPods, Namespace = ''ns-a''\<rparr>
              (Modified, exObject ''foo'' ''ns-a'' ''9'') exUpdated) = trace exUpdated
   \<and> mutexHeld (processEvent \<lparr>gvr = exPods, Namespace = ''ns-a''\<rparr>
              (Modified, exObject ''foo'' ''ns-a'' ''9'') exUpdated) = False"
proof -
  let ?x = "exObject ''foo'' ''ns-a'' ''1''"
  let ?r = "exObject ''foo'' ''ns-a'' ''9''"
  have f: "fst (UpdateStatus exAccept ?x exNsReady) = Inr ?r" by code_simp
  have h1: "UpdateStatus exAccept ?x exNsReady = (Inr ?r, exUpdated)"
    unfolding exUpdated_def using f by (metis prod.collapse)
  have g: "gvrOf (resolve (client exNsReady) (Canonicalize (client exNsReady) (Kind ?x))) = exPods"
    by code_simp
  have n: "GetNamespace ?x = ''ns-a''" by code_simp
  have c: "calls (trace exUpdated) = [1]" by code_simp
  have m: "mutexHeld (processEvent \<lparr>gvr = exPods, Namespace = ''ns-a''\<rparr> (Modified, ?r) exUpdated)
             = False" by code_simp
  from UpdateStatus_echo_is_suppressed[OF h1, where ev="?r"]
  have e: "calls (trace (processEvent \<lparr>gvr = exPods, Namespace = ''ns-a''\<rparr> (Modified, ?r) exUpdated))
             = calls (trace exUpdated)
         \<and> trace (processEvent \<lparr>gvr = exPods, Namespace = ''ns-a''\<rparr> (Modified, ?r) exUpdated)
             = trace exUpdated"
    by (simp add: g n)
  from f c m e show ?thesis by simp
qed

text \<open>
  Claim C6 (kinds never registered): when no watch is registered for the collection a kind
  resolves to, in any namespace, \<^verbatim>\<open>List\<close> returns the empty sequence. \<^verbatim>\<open>List\<close> has no
  error result.
\<close>

theorem List_unregistered_kind_empty:
  assumes "\<forall>ns. map_of (watches w)
             \<lparr>gvr = gvrOf (resolve (client w) (Canonicalize (client w) kind)), Namespace = ns\<rparr> = None"
  shows "List w kind = []"
  using assms by (simp add: List_def ListInternal_def)

theorem List_unregistered_kind_empty_witness:
  "(\<forall>ns. map_of (watches exListed)
           \<lparr>gvr = gvrOf (resolve (client exListed) (Canonicalize (client exListed) ''deployments'')),
            Namespace = ns\<rparr> = None)
   \<and> List exListed ''deployments'' = []
   \<and> length (List exListed ''Pod'') = 2"
proof -
  have g: "gvrOf (resolve (client exListed) (Canonicalize (client exListed) ''deployments''))
           = \<lparr>Group = [], Version = ''v1'', Resource = ''deployments''\<rparr>"
    by code_simp
  have k: "map fst (watches exListed)
           = [\<lparr>gvr = exPods, Namespace = []\<rparr>, \<lparr>gvr = exServices, Namespace = []\<rparr>]"
    by code_simp
  have h: "\<forall>ns. map_of (watches exListed)
             \<lparr>gvr = gvrOf (resolve (client exListed) (Canonicalize (client exListed) ''deployments'')),
              Namespace = ns\<rparr> = None"
  proof
    fix ns
    have "\<lparr>gvr = \<lparr>Group = [], Version = ''v1'', Resource = ''deployments''\<rparr>, Namespace = ns\<rparr>
            \<notin> set (map fst (watches exListed))"
      unfolding k by (simp add: exPods_def exServices_def)
    then show "map_of (watches exListed)
             \<lparr>gvr = gvrOf (resolve (client exListed) (Canonicalize (client exListed) ''deployments'')),
              Namespace = ns\<rparr> = None"
      unfolding g by (simp add: map_of_eq_None_iff)
  qed
  have p: "length (List exListed ''Pod'') = 2" by code_simp
  from List_unregistered_kind_empty[OF h] h p show ?thesis by blast
qed

text \<open>
  Claim C7 (\<^verbatim>\<open>Get\<close>): \<^verbatim>\<open>Get\<close> scans \<^verbatim>\<open>List(kind)\<close> from the front and compares the
  qualified names without regard to case: it returns the empty Resource when no entry
  matches and the first matching entry otherwise; two qualified names that are equal up to
  case give the same result, as \<^verbatim>\<open>Foo.default\<close> and \<^verbatim>\<open>foo.DEFAULT\<close> do.
\<close>

theorem Get_case_insensitive_scan:
  "((\<forall>res \<in> set (List w kind). \<not> EqualFold (QName res) qname) \<longrightarrow> Get w kind qname = [])
   \<and> (List w kind = pre @ res # post
         \<and> (\<forall>x \<in> set pre. \<not> EqualFold (QName x) qname) \<and> EqualFold (QName res) qname
         \<longrightarrow> Get w kind qname = res)
   \<and> (EqualFold qname qname' \<longrightarrow> Get w kind qname = Get w kind qname')
   \<and> Get w ''Pod'' ''Foo.default'' = Get w ''Pod'' ''foo.DEFAULT''"
  using scan_fold[OF EqualFold_example]
  by (auto simp: Get_def scan_none scan_first scan_fold)

theorem Get_case_insensitive_scan_witness:
  "filter (\<lambda>res. EqualFold (QName res) ''baz.default'') (List exListed ''Pod'') = []
   \<and> Get exListed ''Pod'' ''baz.default'' = []
   \<and> List exListed ''Pod'' = [exObject ''foo'' [] ''9''] @ exObject ''bar'' [] ''9'' # []
   \<and> EqualFold (QName (exObject ''bar'' [] ''9'')) ''Bar.Default''
   \<and> Get exListed ''Pod'' ''Bar.Default'' = exObject ''bar'' [] ''9''
   \<and> EqualFold ''Foo.default'' ''foo.DEFAULT''
   \<and> Get exListed ''Pod'' ''Foo.default'' = exObject ''foo'' [] ''9''
   \<and> Get exListed ''Pod'' ''foo.DEFAULT'' = exObject ''foo'' [] ''9''"
proof -
  let ?pre = "[exObject ''foo'' [] ''9'']"
  let ?res = "exObject ''bar'' [] ''9''"
  have h1: "\<forall>res \<in> set (List exListed ''Pod''). \<not> EqualFold (QName res) ''baz.default''"
    by code_simp
  have h2: "List exListed ''Pod'' = ?pre @ ?res # []" by code_simp
  have h3: "\<forall>x \<in> set ?pre. \<not> EqualFold (QName x) ''Bar.Default''" by code_simp
  have h4: "EqualFold (QName ?res) ''Bar.Default''" by code_simp
  have h5: "EqualFold ''Foo.default'' ''foo.DEFAULT''" by code_simp
  have h6: "Get exListed ''Pod'' ''Foo.default'' = exObject ''foo'' [] ''9''" by code_simp
  note t = Get_case_insensitive_scan[where w=exListed and kind="''Pod''"]
  from t[where qname="''baz.default''"] h1
  have a: "Get exListed ''Pod'' ''baz.default'' = []" by blast
  from t[where qname="''Bar.Default''" and pre="?pre" and res="?res" and post="[]"] h2 h3 h4
  have b: "Get exListed ''Pod'' ''Bar.Default'' = ?res" by blast
  from t[where qname="''Foo.default''" and qname'="''foo.DEFAULT''"] h5 h6
  have c: "Get exListed ''Pod'' ''foo.DEFAULT'' = exObject ''foo'' [] ''9''" by metis
  have f: "filter (\<lambda>res. EqualFold (QName res) ''baz.default'') (List exListed ''Pod'') = []"
    by code_simp
  from f a h2 h4 b h5 h6 c show ?thesis by blast
qed




text \<open>
  Claim C9 (ownership of query results): a Resource returned by \<^verbatim>\<open>List\<close> or \<^verbatim>\<open>Get\<close> is an
  independent copy, so that changing it never changes what the Store holds.

  \<^verbatim>\<open>ListInternal\<close> copies nothing: each element of its result is the \<^verbatim>\<open>Object\<close> mapping of
  a stored object. In the example memory the Store of the pods holds one object;
  \<^verbatim>\<open>ListInternal\<close> returns its reference, and assigning to a field through that reference
  changes what the Store holds.
\<close>

theorem query_result_shares_store_object:
  "0 \<in> set (ListInternalRefs exMemory exPods [])
   \<and> storeContents (assign 0 ''kind'' (JString ''Gone'') exMemory) \<lparr>gvr = exPods, Namespace = []\<rparr>
       \<noteq> storeContents exMemory \<lparr>gvr = exPods, Namespace = []\<rparr>"
  by code_simp

text \<open>
  Claim C9, as the code has it: the Resources returned by \<^verbatim>\<open>ListInternal\<close> (and so by
  \<^verbatim>\<open>List\<close>, and by \<^verbatim>\<open>Get\<close> when an entry matches) are the mappings of the stored objects
  themselves, in the order of the Store, and their contents are what the query returns.
  The query changes nothing. An assignment to a field of a returned Resource leaves the
  Store with the same objects, changes the contents of the object that owns the mapping,
  and leaves the contents of every other object as they were.
\<close>

theorem query_results_are_store_objects:
  "ListInternalRefs m g ns =
     map (\<lambda>(key, obj). Object obj)
       (case map_of (stores m) \<lparr>gvr = g, Namespace = ns\<rparr> of Some st \<Rightarrow> st | None \<Rightarrow> [])
   \<and> ListInternal (view m w) g ns =
       (if map_of (watches w) \<lparr>gvr = g, Namespace = ns\<rparr> = None then []
        else map (contents m) (ListInternalRefs m g ns))
   \<and> stores (assign r field v m) = stores m
   \<and> contents (assign r field v m) r = AList.update field v (contents m r)
   \<and> storeContents (assign r field v m) k =
       (case map_of (stores m) k of
          Some st \<Rightarrow> map (\<lambda>(key, obj). (key, if Object obj = r then AList.update field v (contents m r)
                                               else contents m (Object obj))) st
        | None \<Rightarrow> [])"
  by (auto simp: ListInternal_view ListInternalRefs_def UnstructuredContent_def assign_def
        storeContents_def split: option.splits)

text \<open>
  Claim C10 (no notification before the initial synchronisation): every handler of a
  watch goes through the \<^verbatim>\<open>invoke\<close> closure, which takes the mutex, calls the listener
  only when the readiness predicate is true, and releases the mutex. While the readiness
  predicate of a watch is false, no call of \<^verbatim>\<open>invoke\<close>, no handler and no sequence of
  events of that watch calls a listener.
\<close>

theorem listener_gated_by_HasSynced:
  "calls (trace (after (invoke c k wt w))) =
     calls (trace w) @ (if c = FromStart \<and> \<not> mutexHeld w \<and> \<not> blocked wt \<and> hasSynced wt
                        then [listener wt] else [])
   \<and> (\<not> mutexHeld w \<and> \<not> blocked wt \<longrightarrow>
        invoke FromStart k wt w =
          Returns (w\<lparr>trace := trace w @ (if hasSynced wt then [Lock, Call (listener wt), Unlock]
                                        else [Lock, Unlock])\<rparr>))
   \<and> AddFunc k wt obj w = invoke FromHandler k wt w
   \<and> DeleteFunc k wt obj w = invoke FromHandler k wt w
   \<and> (UpdateFunc k wt oldObj obj w = invoke FromHandler k wt w \<or> UpdateFunc k wt oldObj obj w = Returns w)
   \<and> (\<not> hasSynced wt \<longrightarrow>
        calls (trace (after (invoke c k wt w))) = calls (trace w)
      \<and> calls (trace (after (AddFunc k wt obj w))) = calls (trace w)
      \<and> calls (trace (after (UpdateFunc k wt oldObj obj w))) = calls (trace w)
      \<and> calls (trace (after (DeleteFunc k wt obj w))) = calls (trace w))
   \<and> (map_of (watches w) k = Some wt \<and> \<not> hasSynced wt \<longrightarrow>
        calls (trace (foldl (\<lambda>w ev. processEvent k ev w) w evs)) = calls (trace w))"
  using invoke_start_free[of w wt k]
  by (simp add: invoke_calls events_calls AddFunc_def DeleteFunc_def UpdateFunc_def)

theorem listener_gated_by_HasSynced_witness:
  "map_of (watches exWatcher) \<lparr>gvr = exPods, Namespace = []\<rparr>
     = Some (the (map_of (watches exWatcher) \<lparr>gvr = exPods, Namespace = []\<rparr>))
   \<and> hasSynced (the (map_of (watches exWatcher) \<lparr>gvr = exPods, Namespace = []\<rparr>)) = False
   \<and> calls (trace (foldl (\<lambda>w ev. processEvent \<lparr>gvr = exPods, Namespace = []\<rparr> ev w) exWatcher
        [(Added, exObject ''foo'' ''default'' ''3''), (Modified, exObject ''foo'' ''default'' ''4''),
         (Deleted, exObject ''foo'' ''default'' ''4'')])) = []
   \<and> calls (trace (after (invoke FromStart \<lparr>gvr = exPods, Namespace = []\<rparr>
        (the (map_of (watches exWatcher) \<lparr>gvr = exPods, Namespace = []\<rparr>)) exWatcher))) = []
   \<and> trace (after (invoke FromStart \<lparr>gvr = exPods, Namespace = []\<rparr>
        (the (map_of (watches exWatcher) \<lparr>gvr = exPods, Namespace = []\<rparr>)) exWatcher))
       = [Lock, Unlock]
   \<and> calls (trace (after (invoke FromStart \<lparr>gvr = exPods, Namespace = []\<rparr>
        (the (map_of (watches exReady) \<lparr>gvr = exPods, Namespace = []\<rparr>)) exReady)))
       = [1, 2, 1]"
proof -
  let ?k = "\<lparr>gvr = exPods, Namespace = []\<rparr>"
  let ?wt = "the (map_of (watches exWatcher) ?k)"
  let ?evs = "[(Added, exObject ''foo'' ''default'' ''3''), (Modified, exObject ''foo'' ''default'' ''4''),
         (Deleted, exObject ''foo'' ''default'' ''4'')]"
  have h1: "map_of (watches exWatcher) ?k = Some ?wt" by code_simp
  have h2: "\<not> hasSynced ?wt" by code_simp
  have t0: "calls (trace exWatcher) = []" by code_simp
  have t1: "trace (after (invoke FromStart ?k ?wt exWatcher)) = [Lock, Unlock]" by code_simp
  have t2: "calls (trace (after (invoke FromStart ?k (the (map_of (watches exReady) ?k)) exReady)))
              = [1, 2, 1]" by code_simp
  note inst = listener_gated_by_HasSynced[where w=exWatcher and k="?k" and wt="?wt"]
  from inst[where evs="?evs"] h1 h2 t0
  have a: "calls (trace (foldl (\<lambda>w ev. processEvent ?k ev w) exWatcher ?evs)) = []" by simp
  from inst[where c=FromStart] h2 t0
  have b: "calls (trace (after (invoke FromStart ?k ?wt exWatcher))) = []" by simp
  from h1 h2 a b t1 t2 show ?thesis by simp
qed

end
